theory Spec2Isabelle
  imports Complex_Main "HOL-Library.Word"
begin

section \<open>JavaScript values used by the application\<close>

text \<open>
  A string is a sequence of 16-bit code units. \<open>js\<close> turns a literal of ASCII characters
  into the string of their code units.
\<close>

type_synonym codeunit = "16 word"

type_synonym jsstring = "codeunit list"

definition js :: "string \<Rightarrow> jsstring" where
  "js s = map of_char s"

text \<open>
  \<^verbatim>\<open>String.prototype.toLowerCase\<close> and \<^verbatim>\<open>toUpperCase\<close> follow the Unicode case
  conversion of the runtime. On a string of ASCII characters they change the letters
  \<^verbatim>\<open>A\<close> to \<^verbatim>\<open>Z\<close> and \<^verbatim>\<open>a\<close> to \<^verbatim>\<open>z\<close> and nothing else. On any other string
  the result is what the tables of the runtime give (a capital \<^verbatim>\<open>U\<close> with diaeresis
  becomes the small one, a sharp s becomes \<^verbatim>\<open>SS\<close>); the tables are not part of the
  program and are a parameter \<open>U\<close> of every function that converts case.
\<close>

definition isAscii :: "codeunit \<Rightarrow> bool" where
  "isAscii c = (c < 128)"

definition asciiLower :: "codeunit \<Rightarrow> codeunit" where
  "asciiLower c = (if 65 \<le> c \<and> c \<le> 90 then c + 32 else c)"

definition asciiUpper :: "codeunit \<Rightarrow> codeunit" where
  "asciiUpper c = (if 97 \<le> c \<and> c \<le> 122 then c - 32 else c)"

record CaseConversion =
  lowerCase :: "jsstring \<Rightarrow> jsstring"
  upperCase :: "jsstring \<Rightarrow> jsstring"

definition toLowerCase :: "CaseConversion \<Rightarrow> jsstring \<Rightarrow> jsstring" where
  "toLowerCase U s = (if list_all isAscii s then map asciiLower s else lowerCase U s)"

definition toUpperCase :: "CaseConversion \<Rightarrow> jsstring \<Rightarrow> jsstring" where
  "toUpperCase U s = (if list_all isAscii s then map asciiUpper s else upperCase U s)"

text \<open>
  \<^verbatim>\<open>trim\<close> removes white space and line terminators from both ends: TAB, LF, VT, FF,
  CR, SPACE, NO-BREAK SPACE, the other space separators of Unicode, LINE SEPARATOR,
  PARAGRAPH SEPARATOR and the byte order mark.
\<close>

definition isWhiteSpace :: "codeunit \<Rightarrow> bool" where
  "isWhiteSpace c =
     (c = 0x09 \<or> c = 0x0A \<or> c = 0x0B \<or> c = 0x0C \<or> c = 0x0D \<or> c = 0x20 \<or> c = 0xA0
      \<or> c = 0x1680 \<or> (0x2000 \<le> c \<and> c \<le> 0x200A) \<or> c = 0x2028 \<or> c = 0x2029
      \<or> c = 0x202F \<or> c = 0x205F \<or> c = 0x3000 \<or> c = 0xFEFF)"

definition trim :: "jsstring \<Rightarrow> jsstring" where
  "trim s = rev (dropWhile isWhiteSpace (rev (dropWhile isWhiteSpace s)))"

text \<open>
  A thrown value is an instance of \<^verbatim>\<open>Error\<close> (or of a subclass: the
  \<^verbatim>\<open>TypeError\<close> of a property read on \<^verbatim>\<open>undefined\<close>, the
  \<^verbatim>\<open>AxiosError\<close> of a failed request), each with its message, or some other value.
\<close>

datatype thrown =
    Error jsstring
  | TypeError jsstring
  | AxiosError jsstring
  | NonError jsstring

fun instanceofError :: "thrown \<Rightarrow> bool" where
  "instanceofError (Error m) = True"
| "instanceofError (TypeError m) = True"
| "instanceofError (AxiosError m) = True"
| "instanceofError (NonError v) = False"

text \<open>
  A number is a finite double, read as the real number it stands for; \<^verbatim>\<open>NaN\<close> and the
  infinities, which no parsed response body holds, are left out, and arithmetic is exact.
  \<^verbatim>\<open>Math.round\<close> gives the nearest integer, a tie going up.
\<close>

type_synonym number = real

definition Math_round :: "number \<Rightarrow> number" where
  "Math_round x = of_int \<lfloor>x + 1 / 2\<rfloor>"

section \<open>The data model (types.ts)\<close>

text \<open>
  Field names are the source's. Where two interfaces share a field name the selectors are
  written with the record's name in front (\<open>WeatherData.location\<close>,
  \<open>ParsedVoiceCommand.location\<close>).
\<close>

record WeatherData =
  location :: jsstring
  temperature :: number
  description :: jsstring
  humidity :: number
  windSpeed :: number
  windDirection :: "number option"
  pressure :: "number option"
  visibility :: "number option"
  uvIndex :: "number option"
  feelsLike :: "number option"

text \<open>The nested object types of \<^verbatim>\<open>WeatherApiResponse\<close>, each with a name of its own.\<close>

record MainBlock =
  temp :: number
  feels_like :: number
  humidity :: number
  pressure :: number

record WeatherItem =
  main :: jsstring
  description :: jsstring

record Wind =
  speed :: number
  deg :: "number option"

record Sys =
  country :: jsstring

record WeatherApiResponse =
  main :: MainBlock
  weather :: "WeatherItem list"
  wind :: Wind
  visibility :: "number option"
  name :: jsstring
  sys :: Sys

record GeocodingResponse =
  name :: jsstring
  lat :: number
  lon :: number
  country :: jsstring
  state :: "jsstring option"

text \<open>
  The string literal type \<^verbatim>\<open>WeatherCommand\<close>; each constructor is the literal with
  \<open>cmd_\<close> in front.
\<close>

datatype WeatherCommand =
  cmd_current | cmd_today | cmd_weather | cmd_forecast | cmd_temperature | cmd_conditions

record ParsedVoiceCommand =
  command :: WeatherCommand
  location :: "jsstring option"
  isLocationSpecific :: bool

datatype units = metric | imperial

text \<open>
  Modelled from the spec: the interface \<^verbatim>\<open>LocationCoordinates\<close> and the field
  \<^verbatim>\<open>lastLocation\<close> of \<^verbatim>\<open>SessionState\<close>, which the first variant of the
  application reads and writes and \<^verbatim>\<open>types.ts\<close> does not declare: the last location
  is an optional triple of latitude, longitude and accuracy.
\<close>

record LocationCoordinates =
  latitude :: number
  longitude :: number
  accuracy :: number

record SessionState =
  lastWeatherData :: "WeatherData option"
  lastUpdateTime :: "number option"
  preferredUnits :: units
  lastLocation :: "LocationCoordinates option"

section \<open>The regular expressions of the command parser\<close>

text \<open>
  Every location pattern of \<^verbatim>\<open>parseVoiceCommand\<close> is a sequence of characters, some
  of them optional (\<^verbatim>\<open>'?\<close>), around one capturing group \<^verbatim>\<open>(.+)\<close>; every general
  pattern is such a sequence with no group. All carry the flag \<^verbatim>\<open>i\<close>. The matcher
  below is the backtracking matcher of the language on patterns of this shape: the start
  positions are tried from the left, an optional character is tried present before absent,
  and the group takes the longest run first and gives characters back one at a time.
\<close>

datatype atom = Chr codeunit | Opt codeunit

definition lit :: "jsstring \<Rightarrow> atom list" where
  "lit s = map Chr s"

text \<open>
  Under the flag \<^verbatim>\<open>i\<close> a character of the text matches a character of the pattern when
  their canonical forms agree. The canonical form of an ASCII character is its upper-case
  form; that of any other character is never an ASCII character. Every character of the
  patterns below is ASCII, so a character of the text matches one of them when it is ASCII
  and has the same upper-case form.
\<close>

definition sameChar :: "codeunit \<Rightarrow> codeunit \<Rightarrow> bool" where
  "sameChar x c = (isAscii x \<and> asciiUpper x = asciiUpper c)"

text \<open>
  \<open>rests as s\<close>: the texts left after matching the atoms \<open>as\<close> at the start of \<open>s\<close>,
  in the order the matcher finds them; empty when the atoms do not match there.
\<close>

fun rests :: "atom list \<Rightarrow> jsstring \<Rightarrow> jsstring list" where
  "rests [] s = [s]"
| "rests (Chr c # as) s =
     (case s of [] \<Rightarrow> [] | x # xs \<Rightarrow> if sameChar x c then rests as xs else [])"
| "rests (Opt c # as) s =
     (case s of [] \<Rightarrow> [] | x # xs \<Rightarrow> if sameChar x c then rests as xs else []) @ rests as s"

text \<open>The dot matches every character but a line terminator.\<close>

definition isLineTerminator :: "codeunit \<Rightarrow> bool" where
  "isLineTerminator c = (c = 0x0A \<or> c = 0x0D \<or> c = 0x2028 \<or> c = 0x2029)"

definition dotRun :: "jsstring \<Rightarrow> nat" where
  "dotRun s = length (takeWhile (\<lambda>c. \<not> isLineTerminator c) s)"

text \<open>
  \<open>group post s k\<close>: the group \<^verbatim>\<open>(.+)\<close> takes \<open>k\<close> characters of \<open>s\<close>, then fewer, never
  none, until the atoms \<open>post\<close> match what follows; the result is the captured text.
\<close>

fun group :: "atom list \<Rightarrow> jsstring \<Rightarrow> nat \<Rightarrow> jsstring option" where
  "group post s 0 = None"
| "group post s (Suc k) =
     (if rests post (drop (Suc k) s) \<noteq> [] then Some (take (Suc k) s) else group post s k)"

fun firstSome :: "('a \<Rightarrow> 'b option) \<Rightarrow> 'a list \<Rightarrow> 'b option" where
  "firstSome f [] = None"
| "firstSome f (x # xs) = (case f x of Some y \<Rightarrow> Some y | None \<Rightarrow> firstSome f xs)"

type_synonym pattern = "atom list \<times> atom list"

definition matchAt :: "pattern \<Rightarrow> jsstring \<Rightarrow> jsstring option" where
  "matchAt p s = firstSome (\<lambda>r. group (snd p) r (dotRun r)) (rests (fst p) s)"

text \<open>
  \<open>capture p s\<close> is \<^verbatim>\<open>match[1]\<close> of \<^verbatim>\<open>s.match(p)\<close>, \<open>None\<close> when the match is
  \<^verbatim>\<open>null\<close>; \<open>test as s\<close> is \<^verbatim>\<open>as.test(s)\<close>.
\<close>

fun capture :: "pattern \<Rightarrow> jsstring \<Rightarrow> jsstring option" where
  "capture p [] = matchAt p []"
| "capture p (c # cs) =
     (case matchAt p (c # cs) of Some m \<Rightarrow> Some m | None \<Rightarrow> capture p cs)"

fun test :: "atom list \<Rightarrow> jsstring \<Rightarrow> bool" where
  "test as [] = (rests as [] \<noteq> [])"
| "test as (c # cs) = (rests as (c # cs) \<noteq> [] \<or> test as cs)"

section \<open>The command parser (WeatherApp.ts)\<close>

definition genericTerms :: "jsstring list" where
  "genericTerms =
     [js ''here'', js ''there'', js ''this place'', js ''my location'', js ''current location'']"

definition isGenericLocation :: "CaseConversion \<Rightarrow> jsstring \<Rightarrow> bool" where
  "isGenericLocation U loc = (toLowerCase U loc \<in> set genericTerms)"

text \<open>\<^verbatim>\<open>/weather in (.+)/i\<close> and the other location patterns.\<close>

definition weatherIn :: pattern where
  "weatherIn = (lit (js ''weather in ''), [])"

definition anyWeather :: pattern where
  "anyWeather = ([], lit (js '' weather''))"

definition whatsTheWeatherIn :: pattern where
  "whatsTheWeatherIn = (lit (js ''what'') @ [Opt 0x27] @ lit (js ''s the weather in ''), [])"

definition howsTheWeatherIn :: pattern where
  "howsTheWeatherIn = (lit (js ''how'') @ [Opt 0x27] @ lit (js ''s the weather in ''), [])"

definition weatherFor :: pattern where
  "weatherFor = (lit (js ''weather for ''), [])"

definition tellMeTheWeatherIn :: pattern where
  "tellMeTheWeatherIn = (lit (js ''tell me the weather in ''), [])"

text \<open>The general patterns of the first variant of the application.\<close>

definition weatherPatterns :: "atom list list" where
  "weatherPatterns =
     [lit (js ''what'') @ [Opt 0x27] @ lit (js ''s the weather''),
      lit (js ''current weather''),
      lit (js ''weather conditions''),
      lit (js ''how'') @ [Opt 0x27] @ lit (js ''s the weather''),
      lit (js ''weather today''),
      lit (js ''today'') @ [Opt 0x27] @ lit (js ''s weather'')]"

definition locationPatterns_v1 :: "pattern list" where
  "locationPatterns_v1 = [weatherIn, anyWeather, whatsTheWeatherIn, howsTheWeatherIn]"

definition locationPatterns_v2 :: "pattern list" where
  "locationPatterns_v2 =
     [weatherIn, anyWeather, whatsTheWeatherIn, howsTheWeatherIn, weatherFor,
      tellMeTheWeatherIn]"

text \<open>
  The loop over the location patterns: the first pattern that matches with a captured text
  whose trimmed form is not generic returns; a generic one goes on to the next pattern.
\<close>

fun locationLoop ::
    "CaseConversion \<Rightarrow> pattern list \<Rightarrow> jsstring \<Rightarrow> ParsedVoiceCommand option" where
  "locationLoop U [] lowerText = None"
| "locationLoop U (p # ps) lowerText =
     (case capture p lowerText of
        None \<Rightarrow> locationLoop U ps lowerText
      | Some m \<Rightarrow>
          if m \<noteq> [] then
            (let loc = trim m in
             if \<not> isGenericLocation U loc
             then Some \<lparr>command = cmd_weather, location = Some loc, isLocationSpecific = True\<rparr>
             else locationLoop U ps lowerText)
          else locationLoop U ps lowerText)"

text \<open>The first variant: location patterns, then the general patterns, then the error.\<close>

definition parseVoiceCommand_v1 ::
    "CaseConversion \<Rightarrow> jsstring \<Rightarrow> thrown + ParsedVoiceCommand" where
  "parseVoiceCommand_v1 U text =
     (let lowerText = trim (toLowerCase U text) in
      case locationLoop U locationPatterns_v1 lowerText of
        Some r \<Rightarrow> Inr r
      | None \<Rightarrow>
          if list_ex (\<lambda>p. test p lowerText) weatherPatterns
          then Inr \<lparr>command = cmd_current, location = None, isLocationSpecific = False\<rparr>
          else Inl (Error (js ''Unrecognized weather command'')))"

text \<open>The second variant: a city is required.\<close>

definition parseVoiceCommand_v2 ::
    "CaseConversion \<Rightarrow> jsstring \<Rightarrow> thrown + ParsedVoiceCommand" where
  "parseVoiceCommand_v2 U text =
     (let lowerText = trim (toLowerCase U text) in
      case locationLoop U locationPatterns_v2 lowerText of
        Some r \<Rightarrow> Inr r
      | None \<Rightarrow> Inl (Error (js ''Please specify a city name'')))"

section \<open>The weather service (WeatherService.ts)\<close>

text \<open>
  \<^verbatim>\<open>split(' ')\<close> cuts at every single space, so two spaces in a row give an empty word
  and the empty string gives one empty word; \<^verbatim>\<open>join(' ')\<close> puts one space between
  consecutive words.
\<close>

fun split :: "codeunit \<Rightarrow> jsstring \<Rightarrow> jsstring list" where
  "split sep [] = [[]]"
| "split sep (c # cs) =
     (if c = sep then [] # split sep cs
      else (case split sep cs of [] \<Rightarrow> [[c]] | w # ws \<Rightarrow> (c # w) # ws))"

fun join :: "jsstring \<Rightarrow> jsstring list \<Rightarrow> jsstring" where
  "join sep [] = []"
| "join sep [w] = w"
| "join sep (w # v # ws) = w @ sep @ join sep (v # ws)"

text \<open>
  \<^verbatim>\<open>word.charAt(0).toUpperCase() + word.slice(1)\<close>: the first code unit of the word, or
  the empty string, converted to upper case, then the rest of the word.
\<close>

definition capitalizeWord :: "CaseConversion \<Rightarrow> jsstring \<Rightarrow> jsstring" where
  "capitalizeWord U word = toUpperCase U (take 1 word) @ drop 1 word"

definition capitalizeDescription :: "CaseConversion \<Rightarrow> jsstring \<Rightarrow> jsstring" where
  "capitalizeDescription U d = join [0x20] (map (capitalizeWord U) (split 0x20 d))"

text \<open>
  \<^verbatim>\<open>data.weather[0].description\<close> on an empty array reads a property of
  \<^verbatim>\<open>undefined\<close> and throws a \<^verbatim>\<open>TypeError\<close>. The visibility is converted only
  when \<^verbatim>\<open>data.visibility\<close> is truthy: present and not zero.
\<close>

definition undefinedDescription :: thrown where
  "undefinedDescription =
     TypeError (js ''Cannot read properties of undefined (reading 'description')'')"

definition transformWeatherData ::
    "CaseConversion \<Rightarrow> WeatherApiResponse \<Rightarrow> thrown + WeatherData" where
  "transformWeatherData U data =
     (case WeatherApiResponse.weather data of
        [] \<Rightarrow> Inl undefinedDescription
      | w # ws \<Rightarrow>
          Inr \<lparr>WeatherData.location =
                 WeatherApiResponse.name data @ js '', ''
                 @ Sys.country (WeatherApiResponse.sys data),
               WeatherData.temperature = Math_round (MainBlock.temp (WeatherApiResponse.main data)),
               WeatherData.description = capitalizeDescription U (WeatherItem.description w),
               WeatherData.humidity = MainBlock.humidity (WeatherApiResponse.main data),
               WeatherData.windSpeed = Math_round (Wind.speed (WeatherApiResponse.wind data)),
               WeatherData.windDirection = Wind.deg (WeatherApiResponse.wind data),
               WeatherData.pressure = Some (MainBlock.pressure (WeatherApiResponse.main data)),
               WeatherData.visibility =
                 (case WeatherApiResponse.visibility data of
                    None \<Rightarrow> None
                  | Some v \<Rightarrow> if v \<noteq> 0 then Some (Math_round (v / 1000)) else None),
               WeatherData.uvIndex = None,
               WeatherData.feelsLike =
                 Some (Math_round (MainBlock.feels_like (WeatherApiResponse.main data)))\<rparr>)"

text \<open>
  The two endpoints are outside the program: \<open>geoDirect q limit\<close> and
  \<open>weatherGet lat lon units\<close> give what \<^verbatim>\<open>axios.get\<close> resolves to (the response
  data) or rejects with. Every operation returns the requests it made, in order, beside its
  outcome.
\<close>

record Endpoints =
  geoDirect :: "jsstring \<Rightarrow> nat \<Rightarrow> thrown + GeocodingResponse list"
  weatherGet :: "number \<Rightarrow> number \<Rightarrow> jsstring \<Rightarrow> thrown + WeatherApiResponse"

datatype request =
    GeoDirect jsstring nat
  | WeatherGet number number jsstring

definition fetchFailed :: thrown where
  "fetchFailed = Error (js ''Failed to fetch weather data'')"

definition cityNotFound :: "jsstring \<Rightarrow> thrown" where
  "cityNotFound cityName = Error (js ''City '' @ [0x22] @ cityName @ [0x22] @ js '' not found'')"

text \<open>The \<^verbatim>\<open>catch\<close> of \<^verbatim>\<open>getWeatherByCoordinates\<close>: whatever was thrown, the same new error.\<close>

definition getWeatherByCoordinates ::
    "CaseConversion \<Rightarrow> Endpoints \<Rightarrow> LocationCoordinates
      \<Rightarrow> request list \<times> (thrown + WeatherData)" where
  "getWeatherByCoordinates U api coordinates =
     (let req = WeatherGet (latitude coordinates) (longitude coordinates) (js ''imperial'') in
      case weatherGet api (latitude coordinates) (longitude coordinates) (js ''imperial'') of
        Inl error \<Rightarrow> ([req], Inl fetchFailed)
      | Inr data \<Rightarrow>
          (case transformWeatherData U data of
             Inl error \<Rightarrow> ([req], Inl fetchFailed)
           | Inr w \<Rightarrow> ([req], Inr w)))"

text \<open>
  The \<^verbatim>\<open>catch\<close> of \<^verbatim>\<open>getWeatherByCity\<close>: an instance of \<^verbatim>\<open>Error\<close> is thrown
  again as it is, anything else is replaced.
\<close>

definition cityCatch :: "thrown \<Rightarrow> thrown" where
  "cityCatch error = (if instanceofError error then error else fetchFailed)"

definition getWeatherByCity ::
    "CaseConversion \<Rightarrow> Endpoints \<Rightarrow> jsstring \<Rightarrow> request list \<times> (thrown + WeatherData)" where
  "getWeatherByCity U api cityName =
     (case geoDirect api cityName 1 of
        Inl error \<Rightarrow> ([GeoDirect cityName 1], Inl (cityCatch error))
      | Inr geo \<Rightarrow>
          (case geo of
             [] \<Rightarrow> ([GeoDirect cityName 1], Inl (cityCatch (cityNotFound cityName)))
           | g # gs \<Rightarrow>
               (let reqs = [GeoDirect cityName 1, WeatherGet (lat g) (lon g) (js ''imperial'')] in
                case weatherGet api (lat g) (lon g) (js ''imperial'') of
                  Inl error \<Rightarrow> (reqs, Inl (cityCatch error))
                | Inr data \<Rightarrow>
                    (case transformWeatherData U data of
                       Inl error \<Rightarrow> (reqs, Inl (cityCatch error))
                     | Inr w \<Rightarrow> (reqs, Inr w)))))"

section \<open>The cached path of the first variant (WeatherApp.ts)\<close>

text \<open>
  The call that decides what a handler does: \<^verbatim>\<open>displayWeatherData\<close> shows and speaks
  a record it is given and makes no request; \<^verbatim>\<open>weatherService.getWeatherByCity\<close> and
  \<^verbatim>\<open>getCurrentLocationWeather\<close> fetch. \<^verbatim>\<open>handleWeatherCommand\<close> of the first
  variant fetches the city's weather when the command is location specific and its location
  is a non-empty string, the weather of the current location otherwise.
\<close>

datatype step =
    displayWeatherData WeatherData
  | weatherService_getWeatherByCity jsstring
  | getCurrentLocationWeather

definition handleWeatherCommand :: "ParsedVoiceCommand \<Rightarrow> step" where
  "handleWeatherCommand cmd =
     (case ParsedVoiceCommand.location cmd of
        Some city \<Rightarrow>
          if isLocationSpecific cmd \<and> city \<noteq> [] then weatherService_getWeatherByCity city
          else getCurrentLocationWeather
      | None \<Rightarrow> getCurrentLocationWeather)"

text \<open>
  \<^verbatim>\<open>getCurrentWeather\<close> at the time \<open>now\<close> (\<^verbatim>\<open>Date.now()\<close>, in milliseconds): the
  step it takes. \<^verbatim>\<open>lastUpdateTime || 0\<close> is 0 when the time is absent or zero.
\<close>

definition getCurrentWeather :: "(jsstring \<rightharpoonup> SessionState) \<Rightarrow> jsstring \<Rightarrow> number \<Rightarrow> step" where
  "getCurrentWeather sessionStates sessionId now =
     (let fresh =
            handleWeatherCommand
              \<lparr>command = cmd_current, location = None, isLocationSpecific = False\<rparr>
      in case sessionStates sessionId of
        None \<Rightarrow> fresh
      | Some sessionState \<Rightarrow>
          (case lastLocation sessionState of
             None \<Rightarrow> fresh
           | Some coordinates \<Rightarrow>
               (let lastUpdate =
                      (case lastUpdateTime sessionState of
                         None \<Rightarrow> 0
                       | Some t \<Rightarrow> if t \<noteq> 0 then t else 0);
                    fiveMinutes = 5 * 60 * 1000
                in case lastWeatherData sessionState of
                     None \<Rightarrow> fresh
                   | Some w \<Rightarrow>
                       if now - lastUpdate < fiveMinutes then displayWeatherData w
                       else fresh)))"

section \<open>Example values\<close>

text \<open>
  Every text of the examples is ASCII, where the case conversion does not consult its
  parameter; \<open>noTables\<close> stands for the parameter there.
\<close>

definition noTables :: CaseConversion where
  "noTables = \<lparr>lowerCase = (\<lambda>s. s), upperCase = (\<lambda>s. s)\<rparr>"

text \<open>
  The payload of the end-to-end example, a second payload with every optional field present,
  and a weather record, a session state and endpoints for the examples below.
\<close>

definition tokyoPayload :: WeatherApiResponse where
  "tokyoPayload =
     \<lparr>WeatherApiResponse.main =
        \<lparr>MainBlock.temp = 72.4, MainBlock.feels_like = 70.1, MainBlock.humidity = 55,
         MainBlock.pressure = 1012\<rparr>,
      WeatherApiResponse.weather =
        [\<lparr>WeatherItem.main = js ''Clear'', WeatherItem.description = js ''clear sky''\<rparr>],
      WeatherApiResponse.wind = \<lparr>Wind.speed = 5.2, Wind.deg = None\<rparr>,
      WeatherApiResponse.visibility = None,
      WeatherApiResponse.name = js ''Tokyo'',
      WeatherApiResponse.sys = \<lparr>Sys.country = js ''JP''\<rparr>\<rparr>"

definition londonPayload :: WeatherApiResponse where
  "londonPayload =
     \<lparr>WeatherApiResponse.main =
        \<lparr>MainBlock.temp = 58.6, MainBlock.feels_like = 57.2, MainBlock.humidity = 81,
         MainBlock.pressure = 1009\<rparr>,
      WeatherApiResponse.weather =
        [\<lparr>WeatherItem.main = js ''Rain'', WeatherItem.description = js ''light rain''\<rparr>,
         \<lparr>WeatherItem.main = js ''Mist'', WeatherItem.description = js ''mist''\<rparr>],
      WeatherApiResponse.wind = \<lparr>Wind.speed = 11.5, Wind.deg = Some 240\<rparr>,
      WeatherApiResponse.visibility = Some 5000,
      WeatherApiResponse.name = js ''London'',
      WeatherApiResponse.sys = \<lparr>Sys.country = js ''GB''\<rparr>\<rparr>"

definition tokyoWeather :: WeatherData where
  "tokyoWeather =
     \<lparr>WeatherData.location = js ''Tokyo, JP'', WeatherData.temperature = 72,
      WeatherData.description = js ''Clear Sky'', WeatherData.humidity = 55,
      WeatherData.windSpeed = 5, WeatherData.windDirection = None,
      WeatherData.pressure = Some 1012, WeatherData.visibility = None,
      WeatherData.uvIndex = None, WeatherData.feelsLike = Some 70\<rparr>"

definition tokyoCoordinates :: LocationCoordinates where
  "tokyoCoordinates = \<lparr>latitude = 35.68, longitude = 139.69, accuracy = 10\<rparr>"

definition tokyoGeocoding :: GeocodingResponse where
  "tokyoGeocoding =
     \<lparr>GeocodingResponse.name = js ''Tokyo'', lat = 35.68, lon = 139.69,
      GeocodingResponse.country = js ''JP'', state = None\<rparr>"

text \<open>A session whose last update was at the time \<open>t\<close>.\<close>

definition sessionAt :: "number \<Rightarrow> SessionState" where
  "sessionAt t =
     \<lparr>lastWeatherData = Some tokyoWeather, lastUpdateTime = Some t, preferredUnits = imperial,
      lastLocation = Some tokyoCoordinates\<rparr>"

text \<open>
  Endpoints where the geocoding lookup finds no city; where every request fails in the
  transport; and where the geocoding lookup answers and the weather request is refused.
\<close>

definition noCity :: Endpoints where
  "noCity =
     \<lparr>geoDirect = (\<lambda>q limit. Inr []), weatherGet = (\<lambda>lat lon units. Inr tokyoPayload)\<rparr>"

definition networkDown :: Endpoints where
  "networkDown =
     \<lparr>geoDirect = (\<lambda>q limit. Inl (AxiosError (js ''Network Error''))),
      weatherGet = (\<lambda>lat lon units. Inl (AxiosError (js ''Network Error'')))\<rparr>"

definition weatherRefused :: Endpoints where
  "weatherRefused =
     \<lparr>geoDirect = (\<lambda>q limit. Inr [tokyoGeocoding]),
      weatherGet =
        (\<lambda>lat lon units. Inl (AxiosError (js ''Request failed with status code 401'')))\<rparr>"

section \<open>Properties of the command parser\<close>

text \<open>A match of a location pattern always captures at least one character.\<close>

lemma group_Some_nonempty: "group post s k = Some m \<Longrightarrow> k \<le> length s \<Longrightarrow> m \<noteq> []"
  by (induction k) (auto split: if_splits)

lemma dotRun_le: "dotRun s \<le> length s"
  by (simp add: dotRun_def length_takeWhile_le)

lemma firstSome_group: "firstSome (\<lambda>r. group post r (dotRun r)) rs = Some m \<Longrightarrow> m \<noteq> []"
  by (induction rs) (auto split: option.splits dest: group_Some_nonempty simp: dotRun_le)

lemma matchAt_nonempty: "matchAt p s = Some m \<Longrightarrow> m \<noteq> []"
  unfolding matchAt_def by (rule firstSome_group)

lemma capture_nonempty: "capture p s = Some m \<Longrightarrow> m \<noteq> []"
  by (induction s) (auto split: option.splits dest: matchAt_nonempty)

text \<open>
  A text that is \<^verbatim>\<open>weather in \<close> followed by a non-empty line is matched by the first
  pattern at its start, and the group captures the whole line.
\<close>

lemma rests_weather_in: "rests (lit (js ''weather in '')) (js ''weather in '' @ X) = [X]"
  by (simp add: lit_def js_def sameChar_def isAscii_def asciiUpper_def)

lemma group_whole_line:
  assumes "X \<noteq> []" and "list_all (\<lambda>c. \<not> isLineTerminator c) X"
  shows "group [] X (dotRun X) = Some X"
proof -
  from assms(2) have "takeWhile (\<lambda>c. \<not> isLineTerminator c) X = X"
    by (simp add: list_all_iff)
  then have n: "dotRun X = length X"
    unfolding dotRun_def by (rule arg_cong)
  from assms(1) obtain k where "length X = Suc k"
    by (cases X) auto
  with n show ?thesis by simp
qed

lemma matchAt_weather_in_line:
  assumes "X \<noteq> []" and "list_all (\<lambda>c. \<not> isLineTerminator c) X"
  shows "matchAt weatherIn (js ''weather in '' @ X) = Some X"
  using group_whole_line[OF assms]
  by (simp only: matchAt_def weatherIn_def fst_conv snd_conv rests_weather_in
      firstSome.simps option.simps)

lemma capture_weather_in_line:
  assumes "X \<noteq> []" and "list_all (\<lambda>c. \<not> isLineTerminator c) X"
  shows "capture weatherIn (js ''weather in '' @ X) = Some X"
proof -
  obtain c cs where "js ''weather in '' @ X = c # cs"
    by (simp add: js_def)
  with matchAt_weather_in_line[OF assms] show ?thesis by simp
qed

text \<open>On ASCII text the case conversions do not depend on the tables of the runtime.\<close>

lemma toLowerCase_ascii: "list_all isAscii s \<Longrightarrow> toLowerCase U s = map asciiLower s"
  by (simp add: toLowerCase_def)

lemma toUpperCase_ascii: "list_all isAscii s \<Longrightarrow> toUpperCase U s = map asciiUpper s"
  by (simp add: toUpperCase_def)

text \<open>The loop returns at the first pattern whose captured text is not generic.\<close>

lemma locationLoop_first:
  assumes "capture p s = Some X" and "\<not> isGenericLocation U (trim X)"
  shows "locationLoop U (p # ps) s =
         Some \<lparr>command = cmd_weather, location = Some (trim X), isLocationSpecific = True\<rparr>"
  using assms capture_nonempty[OF assms(1)] by simp

text \<open>Whatever the loop returns is location specific and passed the generic test.\<close>

lemma locationLoop_result:
  "locationLoop U ps s = Some r \<Longrightarrow>
     \<exists>c. ParsedVoiceCommand.location r = Some c \<and> \<not> isGenericLocation U c
        \<and> isLocationSpecific r \<and> command r = cmd_weather"
  by (induction ps) (auto split: option.splits if_splits simp: Let_def)

lemma parse_v1_city:
  assumes "parseVoiceCommand_v1 U text = Inr r" and "ParsedVoiceCommand.location r = Some c"
  shows "\<not> isGenericLocation U c"
proof (cases "locationLoop U locationPatterns_v1 (trim (toLowerCase U text))")
  case None
  with assms show ?thesis
    by (auto simp: parseVoiceCommand_v1_def Let_def split: if_splits)
next
  case (Some r')
  with assms(1) have "r' = r"
    by (simp add: parseVoiceCommand_v1_def Let_def)
  with Some assms(2)
    locationLoop_result[of U locationPatterns_v1 "trim (toLowerCase U text)" r]
  show ?thesis by auto
qed

lemma parse_v2_city:
  assumes "parseVoiceCommand_v2 U text = Inr r" and "ParsedVoiceCommand.location r = Some c"
  shows "\<not> isGenericLocation U c"
proof (cases "locationLoop U locationPatterns_v2 (trim (toLowerCase U text))")
  case None
  with assms show ?thesis
    by (auto simp: parseVoiceCommand_v2_def Let_def split: if_splits)
next
  case (Some r')
  with assms(1) have "r' = r"
    by (simp add: parseVoiceCommand_v2_def Let_def)
  with Some assms(2)
    locationLoop_result[of U locationPatterns_v2 "trim (toLowerCase U text)" r]
  show ?thesis by auto
qed

text \<open>
  C1. When the lower-cased, trimmed input matches \<^verbatim>\<open>/weather in (.+)/i\<close> with the
  captured text \<open>X\<close> and the candidate city, the trimmed \<open>X\<close>, is not in lower case one of
  the generic terms, both variants of \<^verbatim>\<open>parseVoiceCommand\<close> return the
  location-specific command whose location is the trimmed \<open>X\<close>; the captured text is never
  empty. The lower case is that of \<^verbatim>\<open>toLowerCase\<close>, whatever the tables of the runtime
  give outside ASCII.
\<close>

theorem weather_in_city:
  assumes "capture weatherIn (trim (toLowerCase U text)) = Some X"
      and "\<not> isGenericLocation U (trim X)"
  shows "X \<noteq> []
       \<and> parseVoiceCommand_v1 U text =
           Inr \<lparr>command = cmd_weather, location = Some (trim X), isLocationSpecific = True\<rparr>
       \<and> parseVoiceCommand_v2 U text =
           Inr \<lparr>command = cmd_weather, location = Some (trim X), isLocationSpecific = True\<rparr>"
  using locationLoop_first[OF assms] capture_nonempty[OF assms(1)]
  by (simp add: parseVoiceCommand_v1_def parseVoiceCommand_v2_def locationPatterns_v1_def
      locationPatterns_v2_def Let_def del: locationLoop.simps)

lemma tokyo_capture:
  "capture weatherIn (trim (toLowerCase U (js ''Weather in Tokyo''))) = Some (js ''tokyo'')"
  by code_simp

lemma tokyo_not_generic: "\<not> isGenericLocation U (trim (js ''tokyo''))"
  by code_simp

lemma tokyo_trim: "trim (js ''tokyo'') = js ''tokyo''"
  by code_simp

theorem weather_in_city_witness:
  "capture weatherIn (trim (toLowerCase noTables (js ''Weather in Tokyo''))) = Some (js ''tokyo'')
   \<and> \<not> isGenericLocation noTables (trim (js ''tokyo''))
   \<and> parseVoiceCommand_v1 noTables (js ''Weather in Tokyo'') =
       Inr \<lparr>command = cmd_weather, location = Some (js ''tokyo''), isLocationSpecific = True\<rparr>
   \<and> parseVoiceCommand_v2 noTables (js ''Weather in Tokyo'') =
       Inr \<lparr>command = cmd_weather, location = Some (js ''tokyo''), isLocationSpecific = True\<rparr>"
  using weather_in_city[OF tokyo_capture tokyo_not_generic, of noTables]
    tokyo_capture[of noTables] tokyo_not_generic[of noTables] tokyo_trim
  by simp

text \<open>
  The generic test is on the trimmed text. In \<^verbatim>\<open>weather in  here\<close>, with two spaces,
  the captured text is \<^verbatim>\<open> here\<close> and the candidate city \<^verbatim>\<open>here\<close> is generic: the
  first pattern is passed over, no other pattern matches and both variants throw.
\<close>

lemma weather_in_two_spaces:
  "capture weatherIn (trim (toLowerCase U (js ''weather in  here''))) = Some (js '' here'')
   \<and> isGenericLocation U (trim (js '' here''))
   \<and> parseVoiceCommand_v1 U (js ''weather in  here'')
       = Inl (Error (js ''Unrecognized weather command''))
   \<and> parseVoiceCommand_v2 U (js ''weather in  here'')
       = Inl (Error (js ''Please specify a city name''))"
  by code_simp

text \<open>
  C2. The first variant on the six general phrasings: four of them contain
  \<^verbatim>\<open> weather\<close> after some text, so the location pattern \<^verbatim>\<open>/(.+) weather/i\<close>, tried
  before the general patterns, captures that text as a city; only
  \<^verbatim>\<open>weather conditions\<close> and \<^verbatim>\<open>weather today\<close> reach the general patterns.
\<close>

theorem general_phrasings_v1:
  "parseVoiceCommand_v1 U (js ''what's the weather'') =
     Inr \<lparr>command = cmd_weather, location = Some (js ''what's the''),
          isLocationSpecific = True\<rparr>
   \<and> parseVoiceCommand_v1 U (js ''current weather'') =
     Inr \<lparr>command = cmd_weather, location = Some (js ''current''), isLocationSpecific = True\<rparr>
   \<and> parseVoiceCommand_v1 U (js ''how's the weather'') =
     Inr \<lparr>command = cmd_weather, location = Some (js ''how's the''),
          isLocationSpecific = True\<rparr>
   \<and> parseVoiceCommand_v1 U (js ''today's weather'') =
     Inr \<lparr>command = cmd_weather, location = Some (js ''today's''), isLocationSpecific = True\<rparr>
   \<and> parseVoiceCommand_v1 U (js ''weather conditions'') =
     Inr \<lparr>command = cmd_current, location = None, isLocationSpecific = False\<rparr>
   \<and> parseVoiceCommand_v1 U (js ''weather today'') =
     Inr \<lparr>command = cmd_current, location = None, isLocationSpecific = False\<rparr>"
  by code_simp

lemma generic_v1:
  "parseVoiceCommand_v1 U (js ''weather in '' @ js ''here'')
     = Inl (Error (js ''Unrecognized weather command''))"
  "parseVoiceCommand_v1 U (js ''weather in '' @ js ''there'')
     = Inl (Error (js ''Unrecognized weather command''))"
  "parseVoiceCommand_v1 U (js ''weather in '' @ js ''this place'')
     = Inl (Error (js ''Unrecognized weather command''))"
  "parseVoiceCommand_v1 U (js ''weather in '' @ js ''my location'')
     = Inl (Error (js ''Unrecognized weather command''))"
  "parseVoiceCommand_v1 U (js ''weather in '' @ js ''current location'')
     = Inl (Error (js ''Unrecognized weather command''))"
  by code_simp+

lemma generic_v2:
  "parseVoiceCommand_v2 U (js ''weather in '' @ js ''here'')
     = Inl (Error (js ''Please specify a city name''))"
  "parseVoiceCommand_v2 U (js ''weather in '' @ js ''there'')
     = Inl (Error (js ''Please specify a city name''))"
  "parseVoiceCommand_v2 U (js ''weather in '' @ js ''this place'')
     = Inl (Error (js ''Please specify a city name''))"
  "parseVoiceCommand_v2 U (js ''weather in '' @ js ''my location'')
     = Inl (Error (js ''Please specify a city name''))"
  "parseVoiceCommand_v2 U (js ''weather in '' @ js ''current location'')
     = Inl (Error (js ''Please specify a city name''))"
  by code_simp+

lemma generic_cases:
  "G \<in> set genericTerms \<Longrightarrow>
   G = js ''here'' \<or> G = js ''there'' \<or> G = js ''this place''
    \<or> G = js ''my location'' \<or> G = js ''current location''"
  unfolding genericTerms_def by (simp only: set_simps insert_iff empty_iff simp_thms)

text \<open>
  C6. In both variants a returned location is never, in lower case, one of the generic
  terms; and for each generic term \<open>G\<close> the input \<^verbatim>\<open>weather in \<close>\<open>G\<close> returns no command
  at all: the first variant throws its unrecognised-command error (the input matches no
  general pattern either), the second its city-required error.
\<close>

theorem city_never_generic:
  "(parseVoiceCommand_v1 U text = Inr r \<and> ParsedVoiceCommand.location r = Some c
      \<longrightarrow> toLowerCase U c \<notin> set genericTerms)
   \<and> (parseVoiceCommand_v2 U text = Inr r \<and> ParsedVoiceCommand.location r = Some c
      \<longrightarrow> toLowerCase U c \<notin> set genericTerms)
   \<and> (G \<in> set genericTerms
      \<longrightarrow> parseVoiceCommand_v1 U (js ''weather in '' @ G)
            = Inl (Error (js ''Unrecognized weather command''))
        \<and> parseVoiceCommand_v2 U (js ''weather in '' @ G)
            = Inl (Error (js ''Please specify a city name'')))"
proof (intro conjI impI)
  assume "parseVoiceCommand_v1 U text = Inr r \<and> ParsedVoiceCommand.location r = Some c"
  then show "toLowerCase U c \<notin> set genericTerms"
    using parse_v1_city[of U _ r c] by (auto simp: isGenericLocation_def)
next
  assume "parseVoiceCommand_v2 U text = Inr r \<and> ParsedVoiceCommand.location r = Some c"
  then show "toLowerCase U c \<notin> set genericTerms"
    using parse_v2_city[of U _ r c] by (auto simp: isGenericLocation_def)
next
  assume "G \<in> set genericTerms"
  from generic_cases[OF this]
  show "parseVoiceCommand_v1 U (js ''weather in '' @ G)
      = Inl (Error (js ''Unrecognized weather command''))"
    by (elim disjE) (simp_all only: generic_v1)
next
  assume "G \<in> set genericTerms"
  from generic_cases[OF this]
  show "parseVoiceCommand_v2 U (js ''weather in '' @ G)
      = Inl (Error (js ''Please specify a city name''))"
    by (elim disjE) (simp_all only: generic_v2)
qed

lemma tokyo_weather_v1:
  "parseVoiceCommand_v1 U (js ''Tokyo weather'') =
     Inr \<lparr>command = cmd_weather, location = Some (js ''tokyo''), isLocationSpecific = True\<rparr>"
  by code_simp

lemma my_location_generic: "js ''my location'' \<in> set genericTerms"
  by (simp add: genericTerms_def)

theorem city_never_generic_witness:
  "parseVoiceCommand_v1 noTables (js ''Tokyo weather'') =
       Inr \<lparr>command = cmd_weather, location = Some (js ''tokyo''), isLocationSpecific = True\<rparr>
   \<and> toLowerCase noTables (js ''tokyo'') \<notin> set genericTerms
   \<and> js ''my location'' \<in> set genericTerms
   \<and> parseVoiceCommand_v1 noTables (js ''weather in '' @ js ''my location'')
       = Inl (Error (js ''Unrecognized weather command''))
   \<and> parseVoiceCommand_v2 noTables (js ''weather in '' @ js ''my location'')
       = Inl (Error (js ''Please specify a city name''))"
  using city_never_generic[of noTables "js ''Tokyo weather''"
      "\<lparr>command = cmd_weather, location = Some (js ''tokyo''), isLocationSpecific = True\<rparr>"
      "js ''tokyo''" "js ''my location''"] tokyo_weather_v1[of noTables] my_location_generic
  by simp

section \<open>Properties of the weather service\<close>

text \<open>Splitting at a separator and joining with it are inverse to each other.\<close>

lemma split_nonempty: "split sep s \<noteq> []"
  by (induction s) (auto split: list.splits)

lemma split_no_sep: "sep \<notin> set w \<Longrightarrow> split sep w = [w]"
  by (induction w) auto

lemma split_append_sep:
  "sep \<notin> set w \<Longrightarrow> split sep (w @ sep # rest) = w # split sep rest"
  by (induction w) (auto split: list.splits simp: split_nonempty)

lemma split_join:
  "ws \<noteq> [] \<Longrightarrow> \<forall>w\<in>set ws. sep \<notin> set w \<Longrightarrow> split sep (join [sep] ws) = ws"
  by (induction "[sep]" ws rule: join.induct) (auto simp: split_no_sep split_append_sep)

lemma join_split: "join [sep] (split sep s) = s"
proof (induction s)
  case Nil
  show ?case by simp
next
  case (Cons c cs)
  obtain w ws where ws: "split sep cs = w # ws"
    using split_nonempty[of sep cs] by (cases "split sep cs") auto
  show ?case
  proof (cases "c = sep")
    case True
    with Cons ws show ?thesis by simp
  next
    case False
    with Cons ws show ?thesis by (cases ws) auto
  qed
qed

lemma split_words_no_sep: "w \<in> set (split sep s) \<Longrightarrow> sep \<notin> set w"
  by (induction s arbitrary: w) (auto split: if_splits list.splits)

lemma capitalizeWord_Nil: "capitalizeWord U [] = []"
  by (simp add: capitalizeWord_def toUpperCase_def)

lemma capitalizeWord_Cons: "capitalizeWord U (c # cs) = toUpperCase U [c] @ cs"
  by (simp add: capitalizeWord_def)

lemma capitalizeWord_ascii: "isAscii c \<Longrightarrow> capitalizeWord U (c # cs) = asciiUpper c # cs"
  by (simp add: capitalizeWord_def toUpperCase_def)

lemma light_rain: "capitalizeDescription U (js ''light rain'') = js ''Light Rain''"
  by code_simp

lemma clear_sky: "capitalizeDescription U (js ''clear sky'') = js ''Clear Sky''"
  by code_simp

text \<open>
  C9. Every description is a sequence of words with no space in them, joined by single
  spaces (a word is empty where two spaces meet); the transformed description is the same
  words, joined by single spaces, each with its first character converted by
  \<^verbatim>\<open>toUpperCase\<close> and the rest as it was. The first character is the first code unit;
  when it is ASCII the conversion gives the one upper-case ASCII character, otherwise what
  the runtime's conversion gives, which may be longer than one character. So
  \<^verbatim>\<open>light rain\<close> becomes \<^verbatim>\<open>Light Rain\<close>.
\<close>

theorem capitalizeDescription_words:
  "(\<exists>ws. ws \<noteq> [] \<and> (\<forall>w\<in>set ws. 0x20 \<notin> set w) \<and> d = join [0x20] ws)
   \<and> (ws \<noteq> [] \<and> (\<forall>w\<in>set ws. 0x20 \<notin> set w)
      \<longrightarrow> capitalizeDescription U (join [0x20] ws) = join [0x20] (map (capitalizeWord U) ws))
   \<and> capitalizeWord U [] = []
   \<and> capitalizeWord U (c # cs) = toUpperCase U [c] @ cs
   \<and> (isAscii c \<longrightarrow> capitalizeWord U (c # cs) = asciiUpper c # cs)
   \<and> (\<not> isAscii c \<longrightarrow> capitalizeWord U (c # cs) = upperCase U [c] @ cs)
   \<and> capitalizeDescription U (js ''light rain'') = js ''Light Rain''"
proof (intro conjI impI)
  have "split 0x20 d \<noteq> []"
    by (rule split_nonempty)
  moreover have "\<forall>w\<in>set (split 0x20 d). 0x20 \<notin> set w"
    using split_words_no_sep by blast
  moreover have "d = join [0x20] (split 0x20 d)"
    using join_split[of "0x20" d] by simp
  ultimately show "\<exists>ws. ws \<noteq> [] \<and> (\<forall>w\<in>set ws. 0x20 \<notin> set w) \<and> d = join [0x20] ws"
    by blast
next
  assume "ws \<noteq> [] \<and> (\<forall>w\<in>set ws. 0x20 \<notin> set w)"
  then have "split 0x20 (join [0x20] ws) = ws"
    using split_join[of ws "0x20"] by simp
  then show "capitalizeDescription U (join [0x20] ws) = join [0x20] (map (capitalizeWord U) ws)"
    by (simp add: capitalizeDescription_def)
next
  assume "isAscii c"
  then show "capitalizeWord U (c # cs) = asciiUpper c # cs"
    by (rule capitalizeWord_ascii)
next
  assume "\<not> isAscii c"
  then show "capitalizeWord U (c # cs) = upperCase U [c] @ cs"
    by (simp add: capitalizeWord_def toUpperCase_def)
qed (rule capitalizeWord_Nil capitalizeWord_Cons light_rain)+

lemma clear_sky_words:
  "[js ''clear'', js ''sky''] \<noteq> []
   \<and> (\<forall>w\<in>set [js ''clear'', js ''sky'']. 0x20 \<notin> set w)"
  by (simp add: js_def)

lemma clear_sky_joined: "join [0x20] [js ''clear'', js ''sky''] = js ''clear sky''"
  by (simp add: js_def)

lemma clear_sky_capitalized:
  "join [0x20] (map (capitalizeWord U) [js ''clear'', js ''sky'']) = js ''Clear Sky''"
  by code_simp

lemma c_ascii: "isAscii 0x63"
  by (simp add: isAscii_def)

theorem capitalizeDescription_words_witness:
  "[js ''clear'', js ''sky''] \<noteq> []
   \<and> list_all (\<lambda>w. 0x20 \<notin> set w) [js ''clear'', js ''sky'']
   \<and> join [0x20] [js ''clear'', js ''sky''] = js ''clear sky''
   \<and> capitalizeDescription noTables (js ''clear sky'') = js ''Clear Sky''
   \<and> isAscii 0x63
   \<and> capitalizeWord noTables (0x63 # js ''lear'') = 0x43 # js ''lear''
   \<and> \<not> isAscii 0xE9
   \<and> capitalizeWord noTables (0xE9 # js ''t'') = upperCase noTables [0xE9] @ js ''t''"
proof -
  note w = capitalizeDescription_words[where ws = "[js ''clear'', js ''sky'']"
      and U = noTables]
  have "capitalizeDescription noTables (join [0x20] [js ''clear'', js ''sky''])
        = join [0x20] (map (capitalizeWord noTables) [js ''clear'', js ''sky''])"
    using w clear_sky_words by blast
  then have "capitalizeDescription noTables (js ''clear sky'') = js ''Clear Sky''"
    by (simp only: clear_sky_joined clear_sky_capitalized)
  moreover have "capitalizeWord noTables (0x63 # js ''lear'') = asciiUpper 0x63 # js ''lear''"
    using capitalizeDescription_words[where c = "0x63" and U = noTables] c_ascii by blast
  then have "capitalizeWord noTables (0x63 # js ''lear'') = 0x43 # js ''lear''"
    by (simp add: asciiUpper_def)
  moreover have e: "\<not> isAscii 0xE9"
    by (simp add: isAscii_def)
  moreover have "capitalizeWord noTables (0xE9 # js ''t'') = upperCase noTables [0xE9] @ js ''t''"
    using capitalizeDescription_words[where c = "0xE9" and U = noTables] e by blast
  ultimately show ?thesis
    using clear_sky_words clear_sky_joined c_ascii by (simp add: list_all_iff)
qed

text \<open>Rounding a whole number of meters to kilometers is an integer division.\<close>

lemma round_meters: "Math_round (of_int n / 1000) = of_int ((n + 500) div 1000)"
proof -
  have "(of_int n :: real) / 1000 + 1 / 2 = of_int (n + 500) / of_int 1000"
    by simp
  then have "\<lfloor>(of_int n :: real) / 1000 + 1 / 2\<rfloor> = (n + 500) div 1000"
    by (simp only: floor_divide_of_int_eq)
  then show ?thesis by (simp add: Math_round_def)
qed

lemma tokyo_location: "js ''Tokyo'' @ js '', '' @ js ''JP'' = js ''Tokyo, JP''"
  by (simp add: js_def)

lemma london_location: "js ''London'' @ js '', '' @ js ''GB'' = js ''London, GB''"
  by (simp add: js_def)

text \<open>
  C5, as amended. For every payload whose weather array is not empty the transform returns
  a record with the location \<open>name, country\<close>, the rounded temperature, feels-like
  temperature and wind speed, and the humidity and the wind direction as they came. The
  payload of the end-to-end example gives the record of the example.
\<close>

theorem transform_fields:
  assumes "WeatherApiResponse.weather data \<noteq> []"
  shows "(\<exists>r. transformWeatherData U data = Inr r
     \<and> WeatherData.location r =
         WeatherApiResponse.name data @ js '', '' @ Sys.country (WeatherApiResponse.sys data)
     \<and> WeatherData.temperature r = of_int \<lfloor>MainBlock.temp (WeatherApiResponse.main data) + 1 / 2\<rfloor>
     \<and> WeatherData.feelsLike r =
         Some (of_int \<lfloor>MainBlock.feels_like (WeatherApiResponse.main data) + 1 / 2\<rfloor>)
     \<and> WeatherData.humidity r = MainBlock.humidity (WeatherApiResponse.main data)
     \<and> WeatherData.windSpeed r = of_int \<lfloor>Wind.speed (WeatherApiResponse.wind data) + 1 / 2\<rfloor>
     \<and> WeatherData.windDirection r = Wind.deg (WeatherApiResponse.wind data))
   \<and> transformWeatherData U tokyoPayload =
       Inr \<lparr>WeatherData.location = (js ''Tokyo, JP''), WeatherData.temperature = 72,
            WeatherData.description = (js ''Clear Sky''), WeatherData.humidity = 55,
            WeatherData.windSpeed = 5, WeatherData.windDirection = None,
            WeatherData.pressure = Some 1012, WeatherData.visibility = None,
            WeatherData.uvIndex = None, WeatherData.feelsLike = Some 70\<rparr>"
proof
  from assms obtain w ws where "WeatherApiResponse.weather data = w # ws"
    by (cases "WeatherApiResponse.weather data") auto
  then show "\<exists>r. transformWeatherData U data = Inr r
     \<and> WeatherData.location r =
         WeatherApiResponse.name data @ js '', '' @ Sys.country (WeatherApiResponse.sys data)
     \<and> WeatherData.temperature r = of_int \<lfloor>MainBlock.temp (WeatherApiResponse.main data) + 1 / 2\<rfloor>
     \<and> WeatherData.feelsLike r =
         Some (of_int \<lfloor>MainBlock.feels_like (WeatherApiResponse.main data) + 1 / 2\<rfloor>)
     \<and> WeatherData.humidity r = MainBlock.humidity (WeatherApiResponse.main data)
     \<and> WeatherData.windSpeed r = of_int \<lfloor>Wind.speed (WeatherApiResponse.wind data) + 1 / 2\<rfloor>
     \<and> WeatherData.windDirection r = Wind.deg (WeatherApiResponse.wind data)"
    by (simp add: transformWeatherData_def Math_round_def)
next
  show "transformWeatherData U tokyoPayload =
       Inr \<lparr>WeatherData.location = (js ''Tokyo, JP''), WeatherData.temperature = 72,
            WeatherData.description = (js ''Clear Sky''), WeatherData.humidity = 55,
            WeatherData.windSpeed = 5, WeatherData.windDirection = None,
            WeatherData.pressure = Some 1012, WeatherData.visibility = None,
            WeatherData.uvIndex = None, WeatherData.feelsLike = Some 70\<rparr>"
    by (simp add: transformWeatherData_def tokyoPayload_def clear_sky Math_round_def tokyo_location)
qed

lemma london_weather: "WeatherApiResponse.weather londonPayload \<noteq> []"
  by (simp add: londonPayload_def)

theorem transform_fields_witness:
  "WeatherApiResponse.weather londonPayload \<noteq> []
   \<and> (\<exists>r. transformWeatherData noTables londonPayload = Inr r
        \<and> WeatherData.location r = (js ''London, GB'')
        \<and> WeatherData.temperature r = 59
        \<and> WeatherData.feelsLike r = Some 57
        \<and> WeatherData.humidity r = 81
        \<and> WeatherData.windSpeed r = 12
        \<and> WeatherData.windDirection r = Some 240)"
proof -
  from transform_fields[OF london_weather, of noTables]
  obtain r where r: "transformWeatherData noTables londonPayload = Inr r"
    and "WeatherData.location r =
         WeatherApiResponse.name londonPayload @ js '', '' @ Sys.country (WeatherApiResponse.sys londonPayload)"
    and "WeatherData.temperature r = of_int \<lfloor>MainBlock.temp (WeatherApiResponse.main londonPayload) + 1 / 2\<rfloor>"
    and "WeatherData.feelsLike r =
         Some (of_int \<lfloor>MainBlock.feels_like (WeatherApiResponse.main londonPayload) + 1 / 2\<rfloor>)"
    and "WeatherData.humidity r = MainBlock.humidity (WeatherApiResponse.main londonPayload)"
    and "WeatherData.windSpeed r = of_int \<lfloor>Wind.speed (WeatherApiResponse.wind londonPayload) + 1 / 2\<rfloor>"
    and "WeatherData.windDirection r = Wind.deg (WeatherApiResponse.wind londonPayload)"
    by blast
  then have "WeatherData.location r = (js ''London, GB'')
        \<and> WeatherData.temperature r = 59
        \<and> WeatherData.feelsLike r = Some 57
        \<and> WeatherData.humidity r = 81
        \<and> WeatherData.windSpeed r = 12
        \<and> WeatherData.windDirection r = Some 240"
    by (simp add: londonPayload_def london_location)
  with r london_weather show ?thesis by blast
qed

text \<open>C5 as stated fails on a payload whose weather array is empty: the transform throws.\<close>

theorem transform_fields_counterexample:
  "transformWeatherData noTables (tokyoPayload\<lparr>WeatherApiResponse.weather := []\<rparr>) = Inl undefinedDescription"
  by (simp add: transformWeatherData_def)

text \<open>
  C7, as amended. For every payload whose weather array is not empty: an absent raw
  visibility gives an absent visibility; a raw visibility that is present and not zero
  gives the visibility \<open>v / 1000\<close> rounded to the nearest integer, a tie going up, which for
  a whole number \<open>n\<close> of meters is \<open>(n + 500) div 1000\<close>. So 5000 meters give 5.
\<close>

theorem transform_visibility:
  assumes "WeatherApiResponse.weather data \<noteq> []"
  shows "\<exists>r. transformWeatherData U data = Inr r
     \<and> (WeatherApiResponse.visibility data = None \<longrightarrow> WeatherData.visibility r = None)
     \<and> (\<forall>v. WeatherApiResponse.visibility data = Some v \<and> v \<noteq> 0
          \<longrightarrow> WeatherData.visibility r = Some (of_int \<lfloor>v / 1000 + 1 / 2\<rfloor>))
     \<and> (\<forall>n. WeatherApiResponse.visibility data = Some (of_int n) \<and> n \<noteq> 0
          \<longrightarrow> WeatherData.visibility r = Some (of_int ((n + 500) div 1000)))"
proof -
  from assms obtain w ws where "WeatherApiResponse.weather data = w # ws"
    by (cases "WeatherApiResponse.weather data") auto
  then show ?thesis
    by (auto simp: transformWeatherData_def round_meters) (simp add: Math_round_def)
qed

lemma london_visibility: "WeatherApiResponse.visibility londonPayload = Some (of_int 5000)"
  by (simp add: londonPayload_def)

lemma tokyo_weather: "WeatherApiResponse.weather tokyoPayload \<noteq> []"
  by (simp add: tokyoPayload_def)

lemma tokyo_visibility: "WeatherApiResponse.visibility tokyoPayload = None"
  by (simp add: tokyoPayload_def)

theorem transform_visibility_witness:
  "WeatherApiResponse.weather londonPayload \<noteq> []
   \<and> WeatherApiResponse.visibility londonPayload = Some 5000
   \<and> (\<exists>r. transformWeatherData noTables londonPayload = Inr r \<and> WeatherData.visibility r = Some 5)
   \<and> WeatherApiResponse.weather tokyoPayload \<noteq> []
   \<and> WeatherApiResponse.visibility tokyoPayload = None
   \<and> (\<exists>r. transformWeatherData noTables tokyoPayload = Inr r \<and> WeatherData.visibility r = None)"
proof -
  from transform_visibility[OF london_weather, of noTables] london_visibility
  have "\<exists>r. transformWeatherData noTables londonPayload = Inr r
          \<and> WeatherData.visibility r = Some (of_int ((5000 + 500) div 1000))"
    by fastforce
  then have "\<exists>r. transformWeatherData noTables londonPayload = Inr r \<and> WeatherData.visibility r = Some 5"
    by simp
  moreover from transform_visibility[OF tokyo_weather, of noTables] tokyo_visibility
  have "\<exists>r. transformWeatherData noTables tokyoPayload = Inr r \<and> WeatherData.visibility r = None"
    by blast
  ultimately show ?thesis
    using london_weather london_visibility tokyo_weather tokyo_visibility by simp
qed

text \<open>
  C7 as stated fails on 1500 meters, which give 2 where the integer division gives 1; and
  on 0 meters, a visibility that is present and gives an absent one.
\<close>

theorem transform_visibility_counterexample:
  "transformWeatherData noTables (tokyoPayload\<lparr>WeatherApiResponse.visibility := Some 1500\<rparr>) =
     Inr \<lparr>WeatherData.location = (js ''Tokyo, JP''), WeatherData.temperature = 72,
          WeatherData.description = (js ''Clear Sky''), WeatherData.humidity = 55,
          WeatherData.windSpeed = 5, WeatherData.windDirection = None,
          WeatherData.pressure = Some 1012, WeatherData.visibility = Some 2,
          WeatherData.uvIndex = None, WeatherData.feelsLike = Some 70\<rparr>
   \<and> (2 :: number) \<noteq> of_int ((1500 :: int) div 1000)
   \<and> transformWeatherData noTables (tokyoPayload\<lparr>WeatherApiResponse.visibility := Some 0\<rparr>) =
     Inr \<lparr>WeatherData.location = (js ''Tokyo, JP''), WeatherData.temperature = 72,
          WeatherData.description = (js ''Clear Sky''), WeatherData.humidity = 55,
          WeatherData.windSpeed = 5, WeatherData.windDirection = None,
          WeatherData.pressure = Some 1012, WeatherData.visibility = None,
          WeatherData.uvIndex = None, WeatherData.feelsLike = Some 70\<rparr>"
  by (simp add: transformWeatherData_def tokyoPayload_def clear_sky Math_round_def tokyo_location)

text \<open>
  C10. The transform reads the first element of the weather array and no other: with a
  first element \<open>w\<close> it returns a record whose description is the capitalised description
  of \<open>w\<close>, the same record as for the array of \<open>w\<close> alone; with an empty array it throws the
  \<^verbatim>\<open>TypeError\<close>. It returns a record exactly when the array is not empty.
\<close>

theorem transform_weather_array:
  "(\<forall>w ws. WeatherApiResponse.weather data = w # ws \<longrightarrow>
       (\<exists>r. transformWeatherData U data = Inr r
          \<and> WeatherData.description r = capitalizeDescription U (WeatherItem.description w)
          \<and> transformWeatherData U (data\<lparr>WeatherApiResponse.weather := [w]\<rparr>) = Inr r))
   \<and> (WeatherApiResponse.weather data = [] \<longrightarrow> transformWeatherData U data = Inl undefinedDescription)
   \<and> ((\<exists>r. transformWeatherData U data = Inr r) = (WeatherApiResponse.weather data \<noteq> []))"
  by (cases "WeatherApiResponse.weather data") (simp_all add: transformWeatherData_def)

lemma london_items:
  "WeatherApiResponse.weather londonPayload =
     \<lparr>WeatherItem.main = (js ''Rain''), WeatherItem.description = (js ''light rain'')\<rparr>
     # [\<lparr>WeatherItem.main = (js ''Mist''), WeatherItem.description = (js ''mist'')\<rparr>]"
  by (simp add: londonPayload_def)

lemma empty_items:
  "WeatherApiResponse.weather (londonPayload\<lparr>WeatherApiResponse.weather := []\<rparr>) = []"
  by simp

theorem transform_weather_array_witness:
  "WeatherApiResponse.weather londonPayload =
     \<lparr>WeatherItem.main = (js ''Rain''), WeatherItem.description = (js ''light rain'')\<rparr>
     # [\<lparr>WeatherItem.main = (js ''Mist''), WeatherItem.description = (js ''mist'')\<rparr>]
   \<and> (\<exists>r. transformWeatherData noTables londonPayload = Inr r
        \<and> WeatherData.description r = (js ''Light Rain''))
   \<and> WeatherApiResponse.weather (londonPayload\<lparr>WeatherApiResponse.weather := []\<rparr>) = []
   \<and> transformWeatherData noTables (londonPayload\<lparr>WeatherApiResponse.weather := []\<rparr>)
       = Inl undefinedDescription"
proof -
  from transform_weather_array[of londonPayload noTables] london_items
  have "\<exists>r. transformWeatherData noTables londonPayload = Inr r
          \<and> WeatherData.description r = capitalizeDescription noTables
               (WeatherItem.description
                 \<lparr>WeatherItem.main = (js ''Rain''), WeatherItem.description = (js ''light rain'')\<rparr>)"
    by blast
  then have "\<exists>r. transformWeatherData noTables londonPayload = Inr r
          \<and> WeatherData.description r = (js ''Light Rain'')"
    by (simp add: light_rain)
  moreover from transform_weather_array[of "londonPayload\<lparr>WeatherApiResponse.weather := []\<rparr>" noTables]
    empty_items
  have "transformWeatherData noTables (londonPayload\<lparr>WeatherApiResponse.weather := []\<rparr>)
       = Inl undefinedDescription"
    by blast
  ultimately show ?thesis using london_items empty_items by simp
qed

text \<open>
  C3. When the geocoding lookup answers with no result, \<^verbatim>\<open>getWeatherByCity\<close> made
  that one request and no weather request, and throws the error whose message names the
  city, which is not the error of a failed fetch.
\<close>

theorem city_not_found:
  assumes "geoDirect api cityName 1 = Inr []"
  shows "getWeatherByCity U api cityName =
           ([GeoDirect cityName 1],
            Inl (Error (js ''City '' @ [0x22] @ cityName @ [0x22] @ js '' not found'')))
       \<and> snd (getWeatherByCity U api cityName) \<noteq> Inl fetchFailed"
  using assms
  by (simp add: getWeatherByCity_def cityCatch_def cityNotFound_def fetchFailed_def js_def)

lemma noCity_geo: "geoDirect noCity (js ''Zzzznotreal'') 1 = Inr []"
  by (simp add: noCity_def)

theorem city_not_found_witness:
  "geoDirect noCity (js ''Zzzznotreal'') 1 = Inr []
   \<and> getWeatherByCity noTables noCity (js ''Zzzznotreal'') =
       ([GeoDirect (js ''Zzzznotreal'') 1],
        Inl (Error (js ''City '' @ [0x22] @ js ''Zzzznotreal'' @ [0x22] @ js '' not found'')))"
  using city_not_found[OF noCity_geo, of noTables] noCity_geo by simp

text \<open>
  The \<^verbatim>\<open>catch\<close> blocks. \<^verbatim>\<open>getWeatherByCoordinates\<close> replaces whatever was thrown by
  the error of a failed fetch. \<^verbatim>\<open>getWeatherByCity\<close> does so only for a thrown value that
  is no instance of \<^verbatim>\<open>Error\<close>; an instance is thrown again as it is.
\<close>

lemma coordinates_failure:
  "weatherGet api (latitude c) (longitude c) (js ''imperial'') = Inl e \<Longrightarrow>
   getWeatherByCoordinates U api c =
     ([WeatherGet (latitude c) (longitude c) (js ''imperial'')], Inl fetchFailed)"
  by (simp add: getWeatherByCoordinates_def Let_def)

lemma city_geocoding_failure:
  "geoDirect api cityName 1 = Inl e \<Longrightarrow>
   getWeatherByCity U api cityName =
     ([GeoDirect cityName 1], Inl (if instanceofError e then e else fetchFailed))"
  by (simp add: getWeatherByCity_def cityCatch_def)

lemma city_weather_failure:
  "geoDirect api cityName 1 = Inr (g # gs) \<Longrightarrow>
   weatherGet api (lat g) (lon g) (js ''imperial'') = Inl e \<Longrightarrow>
   getWeatherByCity U api cityName =
     ([GeoDirect cityName 1, WeatherGet (lat g) (lon g) (js ''imperial'')],
      Inl (if instanceofError e then e else fetchFailed))"
  by (simp add: getWeatherByCity_def cityCatch_def Let_def)

text \<open>
  C4. A request that fails in the transport or is refused rejects with an
  \<^verbatim>\<open>AxiosError\<close>, an instance of \<^verbatim>\<open>Error\<close>. In \<^verbatim>\<open>getWeatherByCity\<close> it comes
  out as it went in, from the geocoding request as from the weather request, and not as the
  error of a failed fetch; \<^verbatim>\<open>getWeatherByCoordinates\<close> on the same endpoints throws the
  error of a failed fetch.
\<close>

theorem city_transport_failure:
  "getWeatherByCity U networkDown (js ''Paris'') =
     ([GeoDirect (js ''Paris'') 1], Inl (AxiosError (js ''Network Error'')))
   \<and> getWeatherByCity U weatherRefused (js ''Tokyo'') =
     ([GeoDirect (js ''Tokyo'') 1, WeatherGet 35.68 139.69 (js ''imperial'')],
      Inl (AxiosError (js ''Request failed with status code 401'')))
   \<and> AxiosError (js ''Network Error'') \<noteq> fetchFailed
   \<and> AxiosError (js ''Request failed with status code 401'') \<noteq> fetchFailed
   \<and> getWeatherByCoordinates U networkDown tokyoCoordinates =
     ([WeatherGet 35.68 139.69 (js ''imperial'')], Inl fetchFailed)"
  by (simp add: getWeatherByCity_def getWeatherByCoordinates_def networkDown_def
      weatherRefused_def tokyoGeocoding_def tokyoCoordinates_def cityCatch_def fetchFailed_def)

section \<open>Properties of the cached path\<close>

lemma fresh_step:
  "handleWeatherCommand \<lparr>command = cmd_current, location = None, isLocationSpecific = False\<rparr>
   = getCurrentLocationWeather"
  by (simp add: handleWeatherCommand_def)

text \<open>
  C8. \<^verbatim>\<open>getCurrentWeather\<close> displays a weather record exactly when the session has a
  last location and a last weather record and the time since the last update is under five
  minutes (an absent time of update counts as 0, as \<^verbatim>\<open>|| 0\<close> has it); the record
  displayed is the stored one and no fetch is made. In every other case it takes the path
  of a fresh command for the current location.
\<close>

theorem current_weather_cache:
  "((\<exists>w. getCurrentWeather sessionStates sessionId now = displayWeatherData w) =
      (\<exists>st l w. sessionStates sessionId = Some st \<and> lastLocation st = Some l
         \<and> lastWeatherData st = Some w
         \<and> now - (case lastUpdateTime st of None \<Rightarrow> 0 | Some t \<Rightarrow> t) < 5 * 60 * 1000))
   \<and> (\<forall>w. getCurrentWeather sessionStates sessionId now = displayWeatherData w
         \<longrightarrow> (\<exists>st. sessionStates sessionId = Some st \<and> lastWeatherData st = Some w))
   \<and> ((\<nexists>w. getCurrentWeather sessionStates sessionId now = displayWeatherData w)
         \<longrightarrow> getCurrentWeather sessionStates sessionId now = getCurrentLocationWeather)"
  by (auto simp: getCurrentWeather_def fresh_step Let_def split: option.splits if_splits)

theorem current_weather_cache_witness:
  "getCurrentWeather [js ''s1'' \<mapsto> sessionAt (1000000 - 4 * 60 * 1000)] (js ''s1'') 1000000
     = displayWeatherData tokyoWeather
   \<and> getCurrentWeather [js ''s1'' \<mapsto> sessionAt (1000000 - 6 * 60 * 1000)] (js ''s1'') 1000000
     = getCurrentLocationWeather"
proof -
  let ?s4 = "[js ''s1'' \<mapsto> sessionAt (1000000 - 4 * 60 * 1000)]"
  let ?s6 = "[js ''s1'' \<mapsto> sessionAt (1000000 - 6 * 60 * 1000)]"
  note c4 = current_weather_cache[of ?s4 "js ''s1''" 1000000]
  note c6 = current_weather_cache[of ?s6 "js ''s1''" 1000000]
  have "\<exists>w. getCurrentWeather ?s4 (js ''s1'') 1000000 = displayWeatherData w"
    using c4 by (simp add: sessionAt_def)
  then obtain w where w: "getCurrentWeather ?s4 (js ''s1'') 1000000 = displayWeatherData w"
    by blast
  with c4 have "w = tokyoWeather"
    by (simp add: sessionAt_def)
  moreover have "\<nexists>w. getCurrentWeather ?s6 (js ''s1'') 1000000 = displayWeatherData w"
    using c6 by (simp add: sessionAt_def)
  then have "getCurrentWeather ?s6 (js ''s1'') 1000000 = getCurrentLocationWeather"
    using c6 by blast
  ultimately show ?thesis using w by simp
qed

end
